theory Spec2Isabelle
  imports Complex_Main
begin

section \<open>Data model\<close>

text \<open>
  The embedding follows \<^verbatim>\<open>heredity.py\<close>. Conventions:
  \<^item> a Python \<^verbatim>\<open>float\<close> is a \<^typ>\<open>real\<close> and the arithmetic is exact; the rounding
    of binary floating point is modelled apart, for \<^verbatim>\<open>joint_probability\<close>, in the
    definitions with the suffix \<open>f64\<close>;
  \<^item> a Python \<^verbatim>\<open>dict\<close> is an association list in insertion order, its keys distinct;
    a loop \<^verbatim>\<open>for k in d\<close> whose body reads \<^verbatim>\<open>d[k]\<close> visits the entries \<open>(k, d[k])\<close> in
    that order (the key comes from the dictionary itself, so the lookup cannot fail);
  \<^item> a Python \<^verbatim>\<open>set\<close> of names is a \<^typ>\<open>string set\<close>; the order in which
    \<^verbatim>\<open>list(s)\<close> enumerates a set is left open by the language and is a parameter
    \<open>to_list\<close> of the functions that depend on it;
  \<^item> a function that mutates its argument in place returns the new value.
\<close>

text \<open>One row of the registry: the dictionary built by \<^verbatim>\<open>load_data\<close> for one person.\<close>

record person =
  p_name :: string
  p_mother :: "string option"
  p_father :: "string option"
  p_trait :: "bool option"

type_synonym people = "(string \<times> person) list"

datatype error = ZeroDivisionError

subsection \<open>The table \<^verbatim>\<open>PROBS\<close>\<close>

text \<open>\<^verbatim>\<open>PROBS["gene"]\<close>; the source reads it at the keys 0, 1 and 2 only.\<close>

definition PROBS_gene :: "nat \<Rightarrow> real" where
  "PROBS_gene n = (if n = 2 then 0.01 else if n = 1 then 0.03 else 0.96)"

text \<open>\<^verbatim>\<open>PROBS["trait"]\<close>; the source reads it at the keys 0, 1 and 2 only.\<close>

definition PROBS_trait :: "nat \<Rightarrow> bool \<Rightarrow> real" where
  "PROBS_trait n b =
     (if n = 2 then (if b then 0.65 else 0.35)
      else if n = 1 then (if b then 0.56 else 0.44)
      else (if b then 0.01 else 0.99))"

definition PROBS_mutation :: real where
  "PROBS_mutation = 0.01"

section \<open>\<^verbatim>\<open>joint_probability\<close>\<close>

text \<open>
  \<^verbatim>\<open>parent in two_genes\<close>, where \<^verbatim>\<open>parent\<close> is a name or \<^verbatim>\<open>None\<close>; the sets hold
  names, so \<^verbatim>\<open>None\<close> is in none of them.
\<close>

fun py_in :: "string option \<Rightarrow> string set \<Rightarrow> bool" where
  "py_in None S = False"
| "py_in (Some n) S = (n \<in> S)"

text \<open>
  Lines 165 to 177: the loop over \<^verbatim>\<open>parents\<close> in the branch of a person with two
  copies; every parent has to pass the gene on.
\<close>

definition gene_from_each_parent ::
  "string set \<Rightarrow> string set \<Rightarrow> string option list \<Rightarrow> real \<Rightarrow> real" where
  "gene_from_each_parent one_gene two_genes parents individual_probability =
     fold (\<lambda>parent individual_probability.
             if py_in parent two_genes then individual_probability * (1 - PROBS_mutation)
             else if py_in parent one_gene then individual_probability * 0.5
             else individual_probability * PROBS_mutation)
          parents individual_probability"

text \<open>
  Lines 198 to 231: the pair \<^verbatim>\<open>(father_not_mother, mother_not_father)\<close> in the branch
  of a person with one copy, after the father's and the mother's \<^verbatim>\<open>if\<close> chains.
\<close>

definition gene_from_one_parent ::
  "string set \<Rightarrow> string set \<Rightarrow> string option \<Rightarrow> string option \<Rightarrow> real \<times> real" where
  "gene_from_one_parent one_gene two_genes father mother =
     (let father_not_mother = 1;
          mother_not_father = 1;
          (father_not_mother, mother_not_father) =
            (if py_in father two_genes then
               (father_not_mother * (1 - PROBS_mutation), mother_not_father * PROBS_mutation)
             else if py_in father one_gene then
               (father_not_mother * 0.5, mother_not_father * 0.5)
             else
               (father_not_mother * PROBS_mutation, mother_not_father * (1 - PROBS_mutation)));
          (father_not_mother, mother_not_father) =
            (if py_in mother two_genes then
               (father_not_mother * PROBS_mutation, mother_not_father * (1 - PROBS_mutation))
             else if py_in mother one_gene then
               (father_not_mother * 0.5, mother_not_father * 0.5)
             else
               (father_not_mother * (1 - PROBS_mutation), mother_not_father * PROBS_mutation))
      in (father_not_mother, mother_not_father))"

text \<open>
  Lines 255 to 267: the loop over \<^verbatim>\<open>parents\<close> in the branch of a person with no copy;
  no parent may pass the gene on.
\<close>

definition gene_from_no_parent ::
  "string set \<Rightarrow> string set \<Rightarrow> string option list \<Rightarrow> real \<Rightarrow> real" where
  "gene_from_no_parent one_gene two_genes parents individual_probability =
     fold (\<lambda>parent individual_probability.
             if py_in parent two_genes then individual_probability * PROBS_mutation
             else if py_in parent one_gene then individual_probability * 0.5
             else individual_probability * (1 - PROBS_mutation))
          parents individual_probability"

text \<open>
  Lines 149 to 279: the body of the loop over the registry, for the key \<open>person\<close> and
  its row \<open>r\<close>; the value of \<^verbatim>\<open>individual_probability\<close> at line 282. The membership in
  \<^verbatim>\<open>two_genes\<close> is tested before the membership in \<^verbatim>\<open>one_gene\<close>.
\<close>

definition individual_probability ::
  "string set \<Rightarrow> string set \<Rightarrow> string set \<Rightarrow> string \<Rightarrow> person \<Rightarrow> real" where
  "individual_probability one_gene two_genes have_trait person r =
     (let individual_probability = 1;
          father = p_father r;
          mother = p_mother r;
          parents = [father, mother]
      in
        if person \<in> two_genes then
          (let individual_probability =
                 (if father \<noteq> None \<and> mother \<noteq> None then
                    gene_from_each_parent one_gene two_genes parents individual_probability
                  else individual_probability * PROBS_gene 2)
           in if person \<in> have_trait then individual_probability * PROBS_trait 2 True
              else individual_probability * PROBS_trait 2 False)
        else if person \<in> one_gene then
          (let individual_probability =
                 (if father \<noteq> None \<and> mother \<noteq> None then
                    (let (father_not_mother, mother_not_father) =
                           gene_from_one_parent one_gene two_genes father mother
                     in individual_probability * (father_not_mother + mother_not_father))
                  else individual_probability * PROBS_gene 1)
           in if person \<in> have_trait then individual_probability * PROBS_trait 1 True
              else individual_probability * PROBS_trait 1 False)
        else
          (let individual_probability =
                 (if father \<noteq> None \<and> mother \<noteq> None then
                    gene_from_no_parent one_gene two_genes parents individual_probability
                  else individual_probability * PROBS_gene 0)
           in if person \<in> have_trait then individual_probability * PROBS_trait 0 True
              else individual_probability * PROBS_trait 0 False))"

text \<open>
  The objects a call of \<^verbatim>\<open>joint_probability\<close> can reach: its four arguments, which
  the caller shares, and the local \<^verbatim>\<open>probability\<close>.
\<close>

record jp_state =
  st_people :: people
  st_one_gene :: "string set"
  st_two_genes :: "string set"
  st_have_trait :: "string set"
  st_probability :: real

text \<open>One round of the loop of line 147: line 282 is its only write.\<close>

definition jp_step :: "string \<times> person \<Rightarrow> jp_state \<Rightarrow> jp_state" where
  "jp_step entry s =
     s\<lparr>st_probability :=
         st_probability s *
         individual_probability (st_one_gene s) (st_two_genes s) (st_have_trait s)
           (fst entry) (snd entry)\<rparr>"

text \<open>The state when \<^verbatim>\<open>joint_probability\<close> reaches its \<^verbatim>\<open>return\<close>.\<close>

definition joint_probability_run ::
  "people \<Rightarrow> string set \<Rightarrow> string set \<Rightarrow> string set \<Rightarrow> jp_state" where
  "joint_probability_run people one_gene two_genes have_trait =
     (let s = \<lparr>st_people = people, st_one_gene = one_gene, st_two_genes = two_genes,
               st_have_trait = have_trait, st_probability = 1\<rparr>
      in fold jp_step (st_people s) s)"

definition joint_probability ::
  "people \<Rightarrow> string set \<Rightarrow> string set \<Rightarrow> string set \<Rightarrow> real" where
  "joint_probability people one_gene two_genes have_trait =
     st_probability (joint_probability_run people one_gene two_genes have_trait)"

text \<open>The registry of \<^verbatim>\<open>test_joint_probability\<close>.\<close>

definition test_people :: people where
  "test_people =
     [(''Harry'', \<lparr>p_name = ''Harry'', p_mother = Some ''Lily'', p_father = Some ''James'',
                   p_trait = None\<rparr>),
      (''James'', \<lparr>p_name = ''James'', p_mother = None, p_father = None, p_trait = Some True\<rparr>),
      (''Lily'', \<lparr>p_name = ''Lily'', p_mother = None, p_father = None, p_trait = Some False\<rparr>)]"

section \<open>\<^verbatim>\<open>joint_probability\<close> in binary floating point\<close>

text \<open>
  The same function with the arithmetic of Python's \<^verbatim>\<open>float\<close> (IEEE 754 binary64): a
  decimal literal denotes the nearest double, and every \<^verbatim>\<open>*\<close>, \<^verbatim>\<open>+\<close> and \<^verbatim>\<open>-\<close> rounds
  its exact result to the nearest double, ties to the even significand. A double is
  modelled by the real number it denotes. Infinities and NaN have no counterpart: the
  rounding below is the one of binary64 for every real of magnitude below \<open>2 ^ 1024\<close>,
  where nothing overflows.
\<close>

text \<open>
  The exponent of the last place: the least \<open>k\<close> with \<open>2 ^ 52 \<le> x * 2 ^ k\<close>, and 1074 (the
  subnormal spacing) when there is none below.
\<close>

fun binade :: "nat \<Rightarrow> real \<Rightarrow> nat" where
  "binade 0 x = 0"
| "binade (Suc fuel) x = (if 2 ^ 52 \<le> x then 0 else Suc (binade fuel (2 * x)))"

text \<open>
  For the large values: the least \<open>j\<close> with \<open>x / 2 ^ j < 2 ^ 53\<close>, and 971 (the largest
  spacing, \<open>2 ^ 971\<close>) when there is none below.
\<close>

fun binade_down :: "nat \<Rightarrow> real \<Rightarrow> nat" where
  "binade_down 0 x = 0"
| "binade_down (Suc fuel) x = (if x < 2 ^ 53 then 0 else Suc (binade_down fuel (x / 2)))"

text \<open>Rounding to the nearest integer, ties to the even one.\<close>

definition round_half_even :: "real \<Rightarrow> int" where
  "round_half_even m =
     (let f = \<lfloor>m\<rfloor>; r = m - of_int f
      in if r < 1 / 2 then f else if 1 / 2 < r then f + 1 else if even f then f else f + 1)"

text \<open>
  The double nearest to \<open>x\<close>: the magnitude is rounded to 53 significant bits, or to a
  multiple of \<open>2 ^ - 1074\<close> where it is subnormal, and the sign is kept.
\<close>

definition round_f64 :: "real \<Rightarrow> real" where
  "round_f64 x =
     (let a = \<bar>x\<bar>; j = binade_down 971 a; k = binade 1074 a
      in sgn x * (of_int (round_half_even (a * 2 ^ k / 2 ^ j)) * 2 ^ j / 2 ^ k))"

definition f64_mul :: "real \<Rightarrow> real \<Rightarrow> real" where
  "f64_mul x y = round_f64 (x * y)"

definition f64_add :: "real \<Rightarrow> real \<Rightarrow> real" where
  "f64_add x y = round_f64 (x + y)"

definition f64_sub :: "real \<Rightarrow> real \<Rightarrow> real" where
  "f64_sub x y = round_f64 (x - y)"

text \<open>The entries of \<^verbatim>\<open>PROBS\<close> are decimal literals.\<close>

definition PROBS_gene_f64 :: "nat \<Rightarrow> real" where
  "PROBS_gene_f64 n = round_f64 (PROBS_gene n)"

definition PROBS_trait_f64 :: "nat \<Rightarrow> bool \<Rightarrow> real" where
  "PROBS_trait_f64 n b = round_f64 (PROBS_trait n b)"

definition PROBS_mutation_f64 :: real where
  "PROBS_mutation_f64 = round_f64 PROBS_mutation"

text \<open>Lines 165 to 177, 198 to 231 and 255 to 267, as above.\<close>

definition gene_from_each_parent_f64 ::
  "string set \<Rightarrow> string set \<Rightarrow> string option list \<Rightarrow> real \<Rightarrow> real" where
  "gene_from_each_parent_f64 one_gene two_genes parents =
     fold (\<lambda>parent individual_probability.
             if py_in parent two_genes then
               f64_mul individual_probability (f64_sub 1 PROBS_mutation_f64)
             else if py_in parent one_gene then f64_mul individual_probability (round_f64 0.5)
             else f64_mul individual_probability PROBS_mutation_f64)
          parents"

definition gene_from_one_parent_f64 ::
  "string set \<Rightarrow> string set \<Rightarrow> string option \<Rightarrow> string option \<Rightarrow> real \<times> real" where
  "gene_from_one_parent_f64 one_gene two_genes father mother =
     (let father_not_mother = 1;
          mother_not_father = 1;
          (father_not_mother, mother_not_father) =
            (if py_in father two_genes then
               (f64_mul father_not_mother (f64_sub 1 PROBS_mutation_f64),
                f64_mul mother_not_father PROBS_mutation_f64)
             else if py_in father one_gene then
               (f64_mul father_not_mother (round_f64 0.5),
                f64_mul mother_not_father (round_f64 0.5))
             else
               (f64_mul father_not_mother PROBS_mutation_f64,
                f64_mul mother_not_father (f64_sub 1 PROBS_mutation_f64)));
          (father_not_mother, mother_not_father) =
            (if py_in mother two_genes then
               (f64_mul father_not_mother PROBS_mutation_f64,
                f64_mul mother_not_father (f64_sub 1 PROBS_mutation_f64))
             else if py_in mother one_gene then
               (f64_mul father_not_mother (round_f64 0.5),
                f64_mul mother_not_father (round_f64 0.5))
             else
               (f64_mul father_not_mother (f64_sub 1 PROBS_mutation_f64),
                f64_mul mother_not_father PROBS_mutation_f64))
      in (father_not_mother, mother_not_father))"

definition gene_from_no_parent_f64 ::
  "string set \<Rightarrow> string set \<Rightarrow> string option list \<Rightarrow> real \<Rightarrow> real" where
  "gene_from_no_parent_f64 one_gene two_genes parents =
     fold (\<lambda>parent individual_probability.
             if py_in parent two_genes then f64_mul individual_probability PROBS_mutation_f64
             else if py_in parent one_gene then f64_mul individual_probability (round_f64 0.5)
             else f64_mul individual_probability (f64_sub 1 PROBS_mutation_f64))
          parents"

text \<open>Lines 149 to 279.\<close>

definition individual_probability_f64 ::
  "string set \<Rightarrow> string set \<Rightarrow> string set \<Rightarrow> string \<Rightarrow> person \<Rightarrow> real" where
  "individual_probability_f64 one_gene two_genes have_trait person r =
     (let individual_probability = 1;
          father = p_father r;
          mother = p_mother r;
          parents = [father, mother]
      in
        if person \<in> two_genes then
          (let individual_probability =
                 (if father \<noteq> None \<and> mother \<noteq> None then
                    gene_from_each_parent_f64 one_gene two_genes parents individual_probability
                  else f64_mul individual_probability (PROBS_gene_f64 2))
           in if person \<in> have_trait
              then f64_mul individual_probability (PROBS_trait_f64 2 True)
              else f64_mul individual_probability (PROBS_trait_f64 2 False))
        else if person \<in> one_gene then
          (let individual_probability =
                 (if father \<noteq> None \<and> mother \<noteq> None then
                    (let (father_not_mother, mother_not_father) =
                           gene_from_one_parent_f64 one_gene two_genes father mother
                     in f64_mul individual_probability
                          (f64_add father_not_mother mother_not_father))
                  else f64_mul individual_probability (PROBS_gene_f64 1))
           in if person \<in> have_trait
              then f64_mul individual_probability (PROBS_trait_f64 1 True)
              else f64_mul individual_probability (PROBS_trait_f64 1 False))
        else
          (let individual_probability =
                 (if father \<noteq> None \<and> mother \<noteq> None then
                    gene_from_no_parent_f64 one_gene two_genes parents individual_probability
                  else f64_mul individual_probability (PROBS_gene_f64 0))
           in if person \<in> have_trait
              then f64_mul individual_probability (PROBS_trait_f64 0 True)
              else f64_mul individual_probability (PROBS_trait_f64 0 False)))"

text \<open>Lines 144 to 284.\<close>

definition joint_probability_f64 ::
  "people \<Rightarrow> string set \<Rightarrow> string set \<Rightarrow> string set \<Rightarrow> real" where
  "joint_probability_f64 people one_gene two_genes have_trait =
     fold (\<lambda>entry probability.
             f64_mul probability
               (individual_probability_f64 one_gene two_genes have_trait (fst entry) (snd entry)))
       people 1"

section \<open>\<^verbatim>\<open>powerset\<close>\<close>

text \<open>
  \<^verbatim>\<open>itertools.combinations(s, r)\<close>: the sublists of length \<open>r\<close>, those that keep the
  first element before those that drop it.
\<close>

fun combinations :: "'a list \<Rightarrow> nat \<Rightarrow> 'a list list" where
  "combinations xs 0 = [[]]"
| "combinations [] (Suc r) = []"
| "combinations (x # xs) (Suc r) =
     map ((#) x) (combinations xs r) @ combinations xs (Suc r)"

definition powerset :: "('a set \<Rightarrow> 'a list) \<Rightarrow> 'a set \<Rightarrow> 'a set list" where
  "powerset to_list s =
     (let s = to_list s
      in map set (concat (map (\<lambda>r. combinations s r) [0..<length s + 1])))"

section \<open>\<^verbatim>\<open>update\<close>\<close>

text \<open>
  \<^verbatim>\<open>probabilities[person]\<close>: the dictionary \<^verbatim>\<open>"gene"\<close> with the keys 2, 1, 0 and the
  dictionary \<^verbatim>\<open>"trait"\<close> with the keys \<^verbatim>\<open>True\<close>, \<^verbatim>\<open>False\<close>. The source reads and
  writes \<^verbatim>\<open>"gene"\<close> at the keys 0, 1 and 2 only.
\<close>

record posterior =
  gene :: "nat \<Rightarrow> real"
  trait :: "bool \<Rightarrow> real"

type_synonym probabilities = "(string \<times> posterior) list"

text \<open>Lines 300 to 318: the body of the loop of \<^verbatim>\<open>update\<close> for one person.\<close>

definition update_person ::
  "string set \<Rightarrow> string set \<Rightarrow> string set \<Rightarrow> real \<Rightarrow> string \<Rightarrow> posterior \<Rightarrow> posterior" where
  "update_person one_gene two_genes have_trait p person post =
     (let post =
            (if person \<in> one_gene then post\<lparr>gene := (gene post)(1 := gene post 1 + p)\<rparr>
             else if person \<in> two_genes then post\<lparr>gene := (gene post)(2 := gene post 2 + p)\<rparr>
             else post\<lparr>gene := (gene post)(0 := gene post 0 + p)\<rparr>)
      in if person \<in> have_trait then post\<lparr>trait := (trait post)(True := trait post True + p)\<rparr>
         else post\<lparr>trait := (trait post)(False := trait post False + p)\<rparr>)"

definition update ::
  "probabilities \<Rightarrow> string set \<Rightarrow> string set \<Rightarrow> string set \<Rightarrow> real \<Rightarrow> probabilities" where
  "update probabilities one_gene two_genes have_trait p =
     map (\<lambda>(person, post). (person, update_person one_gene two_genes have_trait p person post))
       probabilities"

section \<open>\<^verbatim>\<open>normalize\<close>\<close>

text \<open>Python's \<^verbatim>\<open>x / y\<close> on numbers raises \<^verbatim>\<open>ZeroDivisionError\<close> when \<open>y\<close> is zero.\<close>

definition py_div :: "real \<Rightarrow> real \<Rightarrow> error + real" where
  "py_div x y = (if y = 0 then Inl ZeroDivisionError else Inr (x / y))"

text \<open>Lines 340 and 341: \<^verbatim>\<open>gene[number_of_genes] /= gene_norm\<close> for each key of the range.\<close>

fun normalize_gene :: "nat list \<Rightarrow> real \<Rightarrow> (nat \<Rightarrow> real) \<Rightarrow> error + (nat \<Rightarrow> real)" where
  "normalize_gene [] gene_norm g = Inr g"
| "normalize_gene (number_of_genes # rest) gene_norm g =
     (case py_div (g number_of_genes) gene_norm of
        Inl e \<Rightarrow> Inl e
      | Inr q \<Rightarrow> normalize_gene rest gene_norm (g(number_of_genes := q)))"

text \<open>
  Lines 332 to 348: the body of the loop of \<^verbatim>\<open>normalize\<close> for one person. The copy of
  line 327 is shallow, so \<^verbatim>\<open>probabilities_copy[person]\<close> and \<^verbatim>\<open>probabilities[person]\<close>
  are one object; both norms are read before the divisions that use them.
\<close>

definition normalize_person :: "posterior \<Rightarrow> error + posterior" where
  "normalize_person post =
     (let gene_norm = fold (\<lambda>number_of_genes gene_norm. gene_norm + gene post number_of_genes)
                        [0..<3] 0
      in case normalize_gene [0..<3] gene_norm (gene post) of
           Inl e \<Rightarrow> Inl e
         | Inr g \<Rightarrow>
             (let post = post\<lparr>gene := g\<rparr>;
                  trait_norm = trait post True + trait post False
              in case py_div (trait post True) trait_norm of
                   Inl e \<Rightarrow> Inl e
                 | Inr t \<Rightarrow>
                     (let post = post\<lparr>trait := (trait post)(True := t)\<rparr>
                      in case py_div (trait post False) trait_norm of
                           Inl e \<Rightarrow> Inl e
                         | Inr f \<Rightarrow> Inr (post\<lparr>trait := (trait post)(False := f)\<rparr>))))"

text \<open>The loop of line 330; an exception ends it, and the caller does not catch it.\<close>

fun normalize :: "probabilities \<Rightarrow> error + probabilities" where
  "normalize [] = Inr []"
| "normalize ((person, post) # rest) =
     (case normalize_person post of
        Inl e \<Rightarrow> Inl e
      | Inr post' \<Rightarrow>
          (case normalize rest of
             Inl e \<Rightarrow> Inl e
           | Inr rest' \<Rightarrow> Inr ((person, post') # rest')))"

section \<open>The enumeration of \<^verbatim>\<open>main\<close>\<close>

text \<open>Lines 49 to 62: every tally starts at zero.\<close>

definition initial_probabilities :: "people \<Rightarrow> probabilities" where
  "initial_probabilities people =
     map (\<lambda>(person, r). (person, \<lparr>gene = (\<lambda>n. 0), trait = (\<lambda>b. 0)\<rparr>)) people"

text \<open>
  Lines 69 to 73; \<^verbatim>\<open>names\<close> is the set of the keys of \<^verbatim>\<open>people\<close>, so the generator
  ranges over the entries of the registry.
\<close>

definition fails_evidence :: "people \<Rightarrow> string set \<Rightarrow> bool" where
  "fails_evidence people have_trait =
     (\<exists>(person, r) \<in> set people.
        p_trait r \<noteq> None \<and> p_trait r \<noteq> Some (person \<in> have_trait))"

text \<open>Lines 78 to 83: the two loops over the gene sets, for one set \<^verbatim>\<open>have_trait\<close>.\<close>

definition gene_rounds ::
  "(string set \<Rightarrow> string list) \<Rightarrow> people \<Rightarrow> string set \<Rightarrow> string set \<Rightarrow>
   probabilities \<Rightarrow> probabilities" where
  "gene_rounds to_list people names have_trait probabilities =
     fold (\<lambda>one_gene probabilities.
             fold (\<lambda>two_genes probabilities.
                     (let p = joint_probability people one_gene two_genes have_trait
                      in update probabilities one_gene two_genes have_trait p))
               (powerset to_list (names - one_gene)) probabilities)
       (powerset to_list names) probabilities"

text \<open>Lines 68 to 83: one round of the loop over the sets \<^verbatim>\<open>have_trait\<close>.\<close>

definition trait_round ::
  "(string set \<Rightarrow> string list) \<Rightarrow> people \<Rightarrow> string set \<Rightarrow> string set \<Rightarrow>
   probabilities \<Rightarrow> probabilities" where
  "trait_round to_list people names have_trait probabilities =
     (if fails_evidence people have_trait then probabilities
      else gene_rounds to_list people names have_trait probabilities)"

text \<open>Lines 49 to 83: the tallies when \<^verbatim>\<open>main\<close> reaches \<^verbatim>\<open>normalize\<close>.\<close>

definition main_accumulate :: "(string set \<Rightarrow> string list) \<Rightarrow> people \<Rightarrow> probabilities" where
  "main_accumulate to_list people =
     (let probabilities = initial_probabilities people;
          names = set (map fst people)
      in fold (trait_round to_list people names) (powerset to_list names) probabilities)"

text \<open>Lines 49 to 86: the result of \<^verbatim>\<open>main\<close> before it is printed.\<close>

definition main_result ::
  "(string set \<Rightarrow> string list) \<Rightarrow> people \<Rightarrow> error + probabilities" where
  "main_result to_list people = normalize (main_accumulate to_list people)"

text \<open>
  The arguments \<^verbatim>\<open>(one_gene, two_genes, have_trait)\<close> with which line 83 is reached,
  in the order of the three loops.
\<close>

definition update_calls ::
  "(string set \<Rightarrow> string list) \<Rightarrow> people \<Rightarrow> (string set \<times> string set \<times> string set) list" where
  "update_calls to_list people =
     (let names = set (map fst people)
      in concat (map (\<lambda>have_trait.
                        if fails_evidence people have_trait then []
                        else concat (map (\<lambda>one_gene.
                                            map (\<lambda>two_genes. (one_gene, two_genes, have_trait))
                                              (powerset to_list (names - one_gene)))
                                       (powerset to_list names)))
                   (powerset to_list names)))"

section \<open>Auxiliary notions of the statements\<close>

text \<open>
  The transmission model in the words of the specification: a parent with two copies
  passes a copy on with probability \<open>1 - \<mu>\<close>, a parent with one copy with probability
  0.5, a parent with no copy with probability \<open>\<mu>\<close>, where \<open>\<mu> = 0.01\<close>.
\<close>

definition transmission_probability :: "string set \<Rightarrow> string set \<Rightarrow> string \<Rightarrow> real" where
  "transmission_probability one_gene two_genes parent =
     (let mu = 0.01
      in if parent \<in> two_genes then 1 - mu
         else if parent \<in> one_gene then 0.5
         else mu)"

text \<open>
  One admissible order of \<^verbatim>\<open>list(s)\<close>: the elements of \<open>s\<close> in the order in which a
  fixed list of all names has them.
\<close>

definition order_of :: "'a list \<Rightarrow> 'a set \<Rightarrow> 'a list" where
  "order_of universe s = filter (\<lambda>x. x \<in> s) universe"

section \<open>Properties of \<^verbatim>\<open>joint_probability\<close>\<close>

lemmas jp_defs =
  joint_probability_def joint_probability_run_def jp_step_def individual_probability_def
  gene_from_each_parent_def gene_from_one_parent_def gene_from_no_parent_def
  PROBS_gene_def PROBS_trait_def PROBS_mutation_def

subsection \<open>The value of the test\<close>

text \<open>
  A rounding is certified by the exponent \<open>k\<close> and the integer \<open>m\<close> nearest to
  \<open>x * 2 ^ k\<close>.
\<close>

lemma binade_eq:
  "k \<le> fuel \<Longrightarrow> 2 ^ 52 \<le> x * 2 ^ k \<Longrightarrow> x * 2 ^ k < 2 ^ 53 \<Longrightarrow> binade fuel x = k"
proof (induction fuel arbitrary: x k)
  case 0
  then show ?case by simp
next
  case (Suc fuel)
  show ?case
  proof (cases "2 ^ 52 \<le> x")
    case True
    have "k = 0"
    proof (rule ccontr)
      assume "k \<noteq> 0"
      then have "(2::real) \<le> 2 ^ k"
        using self_le_power [of "2::real" k] by simp
      then have "2 ^ 52 * 2 \<le> x * 2 ^ k"
        using True by (intro mult_mono) simp_all
      then show False using Suc.prems(3) by simp
    qed
    then show ?thesis using True by simp
  next
    case False
    then have "k \<noteq> 0" using Suc.prems(2) by (cases k) auto
    then obtain j where k: "k = Suc j" by (cases k) auto
    have "binade fuel (2 * x) = j"
      using Suc.prems by (intro Suc.IH) (simp_all add: k mult_ac)
    then show ?thesis using False by (simp add: k)
  qed
qed

lemma round_half_even_near:
  assumes "\<bar>y - of_int m\<bar> < 1 / 2"
  shows "round_half_even y = m"
proof (cases "of_int m \<le> y")
  case True
  then have "\<lfloor>y\<rfloor> = m" using assms by (intro floor_unique) auto
  then show ?thesis using assms True by (simp add: round_half_even_def)
next
  case False
  then have "\<lfloor>y\<rfloor> = m - 1" using assms by (intro floor_unique) auto
  then show ?thesis using assms False by (simp add: round_half_even_def)
qed

lemma binade_down_small: "x < 2 ^ 53 \<Longrightarrow> binade_down fuel x = 0"
  by (cases fuel) simp_all

text \<open>Below \<open>2 ^ 53\<close> the rounding of a value that is not negative needs the first scale only.\<close>

lemma round_f64_small:
  assumes "0 \<le> x" and "x < 2 ^ 53"
  shows "round_f64 x = of_int (round_half_even (x * 2 ^ binade 1074 x)) / 2 ^ binade 1074 x"
proof (cases "x = 0")
  case True
  then show ?thesis by (simp add: round_f64_def round_half_even_def)
next
  case False
  then have "sgn x = 1" "\<bar>x\<bar> = x" using assms(1) by simp_all
  then show ?thesis
    using binade_down_small [OF assms(2), of 971] by (simp add: round_f64_def Let_def)
qed

lemma round_f64_near:
  assumes "k \<le> 1074" and "2 ^ 52 \<le> x * 2 ^ k" and "x * 2 ^ k < 2 ^ 53"
    and "\<bar>x * 2 ^ k - of_int m\<bar> < 1 / 2"
  shows "round_f64 x = of_int m / 2 ^ k"
proof -
  have "0 < x * 2 ^ k" using assms(2) by (simp add: less_le_trans [of 0 "2 ^ 52"])
  then have pos: "0 \<le> x" by (simp add: zero_less_mult_iff)
  have "x * 1 \<le> x * 2 ^ k" using pos by (intro mult_left_mono) simp_all
  then have small: "x < 2 ^ 53" using assms(3) by simp
  show ?thesis
    unfolding round_f64_small [OF pos small] binade_eq [OF assms(1-3)]
      round_half_even_near [OF assms(4)] ..
qed

text \<open>The roundings of the call of the test, in the order of the source.\<close>

lemma f64_mutation: "PROBS_mutation_f64 = 5764607523034235 / 576460752303423488"
  unfolding PROBS_mutation_f64_def PROBS_mutation_def
  by (subst round_f64_near [where k = 59 and m = 5764607523034235]) simp_all

lemma f64_keep:
  "f64_sub 1 (5764607523034235 / 576460752303423488) =
     4458563631096791 / 4503599627370496"
  unfolding f64_sub_def
  by (subst round_f64_near [where k = 53 and m = 8917127262193582]) simp_all

lemma f64_harry_fnm1:
  "f64_mul 1 (4458563631096791 / 4503599627370496) =
     4458563631096791 / 4503599627370496"
  unfolding f64_mul_def
  by (subst round_f64_near [where k = 53 and m = 8917127262193582]) simp_all

lemma f64_harry_mnf1:
  "f64_mul 1 (5764607523034235 / 576460752303423488) =
     5764607523034235 / 576460752303423488"
  unfolding f64_mul_def
  by (subst round_f64_near [where k = 59 and m = 5764607523034235]) simp_all

lemma f64_harry_fnm2:
  "f64_mul (4458563631096791 / 4503599627370496) (4458563631096791 / 4503599627370496) =
     4413977994785823 / 4503599627370496"
  unfolding f64_mul_def
  by (subst round_f64_near [where k = 53 and m = 8827955989571646]) simp_all

lemma f64_harry_mnf2:
  "f64_mul (5764607523034235 / 576460752303423488) (5764607523034235 / 576460752303423488) =
     7378697629483821 / 73786976294838206464"
  unfolding f64_mul_def
  by (subst round_f64_near [where k = 66 and m = 7378697629483821]) simp_all

lemma f64_harry_sum:
  "f64_add (4413977994785823 / 4503599627370496) (7378697629483821 / 73786976294838206464) =
     275901772171785 / 281474976710656"
  unfolding f64_add_def
  by (subst round_f64_near [where k = 53 and m = 8828856709497120]) simp_all

lemma f64_harry_gene:
  "f64_mul 1 (275901772171785 / 281474976710656) =
     275901772171785 / 281474976710656"
  unfolding f64_mul_def
  by (subst round_f64_near [where k = 53 and m = 8828856709497120]) simp_all

lemma f64_trait_1_False: "PROBS_trait_f64 1 False = 7926335344172073 / 18014398509481984"
  unfolding PROBS_trait_f64_def PROBS_trait_def
  by (subst round_f64_near [where k = 54 and m = 7926335344172073]) simp_all

lemma f64_harry:
  "f64_mul (275901772171785 / 281474976710656) (7926335344172073 / 18014398509481984) =
     3884696952178733 / 9007199254740992"
  unfolding f64_mul_def
  by (subst round_f64_near [where k = 54 and m = 7769393904357466]) simp_all

lemma f64_gene_2: "PROBS_gene_f64 2 = 5764607523034235 / 576460752303423488"
  unfolding PROBS_gene_f64_def PROBS_gene_def
  by (subst round_f64_near [where k = 59 and m = 5764607523034235]) simp_all

lemma f64_trait_2_True: "PROBS_trait_f64 2 True = 5854679515581645 / 9007199254740992"
  unfolding PROBS_trait_f64_def PROBS_trait_def
  by (subst round_f64_near [where k = 53 and m = 5854679515581645]) simp_all

lemma f64_james:
  "f64_mul (5764607523034235 / 576460752303423488) (5854679515581645 / 9007199254740992) =
     3746994889972253 / 576460752303423488"
  unfolding f64_mul_def
  by (subst round_f64_near [where k = 60 and m = 7493989779944506]) simp_all

lemma f64_gene_0: "PROBS_gene_f64 0 = 1080863910568919 / 1125899906842624"
  unfolding PROBS_gene_f64_def PROBS_gene_def
  by (subst round_f64_near [where k = 53 and m = 8646911284551352]) simp_all

lemma f64_lily_gene:
  "f64_mul 1 (1080863910568919 / 1125899906842624) =
     1080863910568919 / 1125899906842624"
  unfolding f64_mul_def
  by (subst round_f64_near [where k = 53 and m = 8646911284551352]) simp_all

lemma f64_trait_0_False: "PROBS_trait_f64 0 False = 4458563631096791 / 4503599627370496"
  unfolding PROBS_trait_f64_def PROBS_trait_def
  by (subst round_f64_near [where k = 53 and m = 8917127262193582]) simp_all

lemma f64_lily:
  "f64_mul (1080863910568919 / 1125899906842624) (4458563631096791 / 4503599627370496) =
     4280221085852919 / 4503599627370496"
  unfolding f64_mul_def
  by (subst round_f64_near [where k = 53 and m = 8560442171705838]) simp_all

lemma f64_product_1:
  "f64_mul 1 (3884696952178733 / 9007199254740992) =
     3884696952178733 / 9007199254740992"
  unfolding f64_mul_def
  by (subst round_f64_near [where k = 54 and m = 7769393904357466]) simp_all

lemma f64_product_2:
  "f64_mul (3884696952178733 / 9007199254740992) (3746994889972253 / 576460752303423488) =
     1616033932106353 / 576460752303423488"
  unfolding f64_mul_def
  by (subst round_f64_near [where k = 61 and m = 6464135728425412]) simp_all

lemma f64_product_3:
  "f64_mul (1616033932106353 / 576460752303423488) (4280221085852919 / 4503599627370496) =
     6143514596295511 / 2305843009213693952"
  unfolding f64_mul_def
  by (subst round_f64_near [where k = 61 and m = 6143514596295511]) simp_all

lemma f64_expected: "round_f64 0.0026643247488 = 6143514596295511 / 2305843009213693952"
  by (subst round_f64_near [where k = 61 and m = 6143514596295511]) simp_all

lemmas f64_steps =
  f64_mutation f64_keep f64_harry_fnm1 f64_harry_mnf1 f64_harry_fnm2 f64_harry_mnf2
  f64_harry_sum f64_harry_gene f64_trait_1_False f64_harry f64_trait_2_True f64_james
  f64_gene_0 f64_lily_gene f64_trait_0_False f64_lily f64_product_1 f64_product_2
  f64_product_3

lemma joint_probability_f64_test_value:
  "joint_probability_f64 test_people {''Harry''} {''James''} {''James''} =
     round_f64 0.0026643247488"
  unfolding f64_expected
  by (simp add: joint_probability_f64_def test_people_def individual_probability_f64_def
      gene_from_one_parent_f64_def Let_def f64_gene_2 f64_steps del: One_nat_def)

text \<open>
  C1: on the registry of the test (Harry with mother Lily and father James and no
  recorded trait, James and Lily without parents, James with the trait and Lily without),
  the joint probability that Harry has one copy, James has two copies and only James
  has the trait is 0.0026643247488: this is the exact value of the product, and in
  binary floating point the computed double is the one that the literal
  \<^verbatim>\<open>0.0026643247488\<close> denotes, so that the comparison \<^verbatim>\<open>==\<close> of the test holds.
\<close>

theorem joint_probability_test_value:
  "joint_probability test_people {''Harry''} {''James''} {''James''} = 0.0026643247488 \<and>
   joint_probability_f64 test_people {''Harry''} {''James''} {''James''} =
     round_f64 0.0026643247488"
  using joint_probability_f64_test_value by (simp add: jp_defs test_people_def)

subsection \<open>The result is a probability\<close>

lemma PROBS_gene_bounds: "0 \<le> PROBS_gene n \<and> PROBS_gene n \<le> 1"
  by (simp add: PROBS_gene_def)

lemma PROBS_trait_bounds: "0 \<le> PROBS_trait n b \<and> PROBS_trait n b \<le> 1"
  by (simp add: PROBS_trait_def)

lemma gene_from_each_parent_bounds:
  "0 \<le> gene_from_each_parent one_gene two_genes [father, mother] 1 \<and>
   gene_from_each_parent one_gene two_genes [father, mother] 1 \<le> 1"
  by (simp add: gene_from_each_parent_def PROBS_mutation_def)

lemma gene_from_no_parent_bounds:
  "0 \<le> gene_from_no_parent one_gene two_genes [father, mother] 1 \<and>
   gene_from_no_parent one_gene two_genes [father, mother] 1 \<le> 1"
  by (simp add: gene_from_no_parent_def PROBS_mutation_def)

lemma gene_from_one_parent_bounds:
  "gene_from_one_parent one_gene two_genes father mother = (a, b) \<Longrightarrow>
   0 \<le> a + b \<and> a + b \<le> 1"
  by (auto simp add: gene_from_one_parent_def PROBS_mutation_def split: if_splits)

lemma mult_unit_interval:
  fixes x y :: real
  shows "0 \<le> x \<and> x \<le> 1 \<Longrightarrow> 0 \<le> y \<and> y \<le> 1 \<Longrightarrow> 0 \<le> x * y \<and> x * y \<le> 1"
  by (simp add: mult_le_one)

lemma individual_probability_bounds:
  "0 \<le> individual_probability one_gene two_genes have_trait person r \<and>
   individual_probability one_gene two_genes have_trait person r \<le> 1"
proof -
  obtain a b where
    ab: "gene_from_one_parent one_gene two_genes (p_father r) (p_mother r) = (a, b)"
    by (cases "gene_from_one_parent one_gene two_genes (p_father r) (p_mother r)")
  note g1 = gene_from_one_parent_bounds [OF ab]
  note g2 = gene_from_each_parent_bounds [of one_gene two_genes "p_father r" "p_mother r"]
  note g0 = gene_from_no_parent_bounds [of one_gene two_genes "p_father r" "p_mother r"]
  show ?thesis
    unfolding individual_probability_def Let_def ab
    using mult_unit_interval [OF g1 PROBS_trait_bounds]
      mult_unit_interval [OF g2 PROBS_trait_bounds]
      mult_unit_interval [OF g0 PROBS_trait_bounds]
      mult_unit_interval [OF PROBS_gene_bounds PROBS_trait_bounds]
    by simp
qed

lemma fold_jp_step_bounds:
  "0 \<le> st_probability s \<and> st_probability s \<le> 1 \<Longrightarrow>
   0 \<le> st_probability (fold jp_step entries s) \<and>
   st_probability (fold jp_step entries s) \<le> 1"
proof (induction entries arbitrary: s)
  case Nil
  then show ?case by simp
next
  case (Cons e entries)
  have "0 \<le> st_probability (jp_step e s) \<and> st_probability (jp_step e s) \<le> 1"
    using mult_unit_interval [OF Cons.prems individual_probability_bounds]
    by (simp add: jp_step_def)
  then show ?case using Cons.IH by simp
qed

text \<open>The same bounds in binary floating point: the remaining products of the factors.\<close>

lemma f64_half: "round_f64 (1 / 2) = 1 / 2"
  by (subst round_f64_near [where k = 53 and m = 4503599627370496]) simp_all

lemma f64_one_half: "f64_mul 1 (1 / 2) = 1 / 2"
  unfolding f64_mul_def
  by (subst round_f64_near [where k = 53 and m = 4503599627370496]) simp_all

lemma f64_keep_mutation:
  "f64_mul (4458563631096791 / 4503599627370496) (5764607523034235 / 576460752303423488) =
     5706961447803893 / 576460752303423488"
  unfolding f64_mul_def
  by (subst round_f64_near [where k = 59 and m = 5706961447803893]) simp_all

lemma f64_keep_half:
  "f64_mul (4458563631096791 / 4503599627370496) (1 / 2) =
     4458563631096791 / 9007199254740992"
  unfolding f64_mul_def
  by (subst round_f64_near [where k = 54 and m = 8917127262193582]) simp_all

lemma f64_mutation_keep:
  "f64_mul (5764607523034235 / 576460752303423488) (4458563631096791 / 4503599627370496) =
     5706961447803893 / 576460752303423488"
  unfolding f64_mul_def
  by (subst round_f64_near [where k = 59 and m = 5706961447803893]) simp_all

lemma f64_mutation_half:
  "f64_mul (5764607523034235 / 576460752303423488) (1 / 2) =
     5764607523034235 / 1152921504606846976"
  unfolding f64_mul_def
  by (subst round_f64_near [where k = 60 and m = 5764607523034235]) simp_all

lemma f64_half_keep:
  "f64_mul (1 / 2) (4458563631096791 / 4503599627370496) =
     4458563631096791 / 9007199254740992"
  unfolding f64_mul_def
  by (subst round_f64_near [where k = 54 and m = 8917127262193582]) simp_all

lemma f64_half_mutation:
  "f64_mul (1 / 2) (5764607523034235 / 576460752303423488) =
     5764607523034235 / 1152921504606846976"
  unfolding f64_mul_def
  by (subst round_f64_near [where k = 60 and m = 5764607523034235]) simp_all

lemma f64_half_half: "f64_mul (1 / 2) (1 / 2) = 1 / 4"
  unfolding f64_mul_def
  by (subst round_f64_near [where k = 54 and m = 4503599627370496]) simp_all

lemmas f64_steps2 =
  f64_half f64_one_half f64_keep_mutation f64_keep_half f64_mutation_keep f64_mutation_half
  f64_half_keep f64_half_mutation f64_half_half

lemma round_half_even_bounds: "\<lfloor>y\<rfloor> \<le> round_half_even y \<and> round_half_even y \<le> \<lceil>y\<rceil>"
proof -
  have "\<lceil>y\<rceil> = \<lfloor>y\<rfloor> + 1" if "y - of_int \<lfloor>y\<rfloor> \<noteq> 0"
    using that by (simp add: ceiling_altdef)
  then show ?thesis
    by (auto simp add: round_half_even_def Let_def)
qed

lemma round_f64_unit:
  assumes "0 \<le> x" and "x \<le> 1"
  shows "0 \<le> round_f64 x \<and> round_f64 x \<le> 1"
proof -
  define k where "k = binade 1074 x"
  let ?y = "x * 2 ^ k"
  have "0 \<le> ?y" using assms(1) by simp
  then have "0 \<le> \<lfloor>?y\<rfloor>" by simp
  then have lo: "0 \<le> round_half_even ?y"
    using round_half_even_bounds [of ?y] by linarith
  have "?y \<le> of_int (2 ^ k)" using assms(2) by (simp add: mult_left_le_one_le)
  then have "\<lceil>?y\<rceil> \<le> 2 ^ k" by (simp only: ceiling_le_iff)
  then have hi: "round_half_even ?y \<le> 2 ^ k"
    using round_half_even_bounds [of ?y] by linarith
  have "real_of_int (round_half_even ?y) \<le> 2 ^ k"
    using hi by (metis of_int_le_iff of_int_numeral of_int_power)
  moreover have small: "x < 2 ^ 53" using assms(2) by simp
  ultimately show ?thesis
    using lo by (simp add: round_f64_small [OF assms(1) small] k_def [symmetric] divide_le_eq_1)
qed

lemma f64_mul_unit:
  "0 \<le> x \<and> x \<le> 1 \<Longrightarrow> 0 \<le> y \<and> y \<le> 1 \<Longrightarrow> 0 \<le> f64_mul x y \<and> f64_mul x y \<le> 1"
  unfolding f64_mul_def by (intro round_f64_unit) (simp_all add: mult_le_one)

lemma PROBS_gene_f64_bounds: "0 \<le> PROBS_gene_f64 n \<and> PROBS_gene_f64 n \<le> 1"
  unfolding PROBS_gene_f64_def using PROBS_gene_bounds by (intro round_f64_unit) simp_all

lemma PROBS_trait_f64_bounds: "0 \<le> PROBS_trait_f64 n b \<and> PROBS_trait_f64 n b \<le> 1"
  unfolding PROBS_trait_f64_def using PROBS_trait_bounds by (intro round_f64_unit) simp_all

lemma gene_from_each_parent_f64_bounds:
  "0 \<le> gene_from_each_parent_f64 one_gene two_genes [father, mother] 1 \<and>
   gene_from_each_parent_f64 one_gene two_genes [father, mother] 1 \<le> 1"
  by (simp add: gene_from_each_parent_f64_def f64_steps f64_steps2)

lemma gene_from_no_parent_f64_bounds:
  "0 \<le> gene_from_no_parent_f64 one_gene two_genes [father, mother] 1 \<and>
   gene_from_no_parent_f64 one_gene two_genes [father, mother] 1 \<le> 1"
  by (simp add: gene_from_no_parent_f64_def f64_steps f64_steps2)

lemma gene_from_one_parent_f64_bounds:
  "gene_from_one_parent_f64 one_gene two_genes father mother = (a, b) \<Longrightarrow>
   0 \<le> a + b \<and> a + b \<le> 1"
  by (auto simp add: gene_from_one_parent_f64_def f64_steps f64_steps2 split: if_splits)

lemma f64_add_unit:
  "0 \<le> x + y \<and> x + y \<le> 1 \<Longrightarrow> 0 \<le> f64_add x y \<and> f64_add x y \<le> 1"
  unfolding f64_add_def by (intro round_f64_unit) simp_all

lemma unit_one: "0 \<le> (1::real) \<and> (1::real) \<le> 1"
  by simp

lemma individual_probability_f64_bounds:
  "0 \<le> individual_probability_f64 one_gene two_genes have_trait person r \<and>
   individual_probability_f64 one_gene two_genes have_trait person r \<le> 1"
proof -
  obtain a b where
    ab: "gene_from_one_parent_f64 one_gene two_genes (p_father r) (p_mother r) = (a, b)"
    by (cases "gene_from_one_parent_f64 one_gene two_genes (p_father r) (p_mother r)")
  note g1 = f64_mul_unit [OF unit_one f64_add_unit [OF gene_from_one_parent_f64_bounds [OF ab]]]
  note g2 = gene_from_each_parent_f64_bounds [of one_gene two_genes "p_father r" "p_mother r"]
  note g0 = gene_from_no_parent_f64_bounds [of one_gene two_genes "p_father r" "p_mother r"]
  note gf = f64_mul_unit [OF unit_one PROBS_gene_f64_bounds]
  show ?thesis
    unfolding individual_probability_f64_def Let_def ab prod.case
    using f64_mul_unit [OF g1 PROBS_trait_f64_bounds]
      f64_mul_unit [OF g2 PROBS_trait_f64_bounds]
      f64_mul_unit [OF g0 PROBS_trait_f64_bounds]
      f64_mul_unit [OF gf PROBS_trait_f64_bounds]
    by simp
qed

lemma joint_probability_f64_bounds:
  "0 \<le> joint_probability_f64 people one_gene two_genes have_trait \<and>
   joint_probability_f64 people one_gene two_genes have_trait \<le> 1"
proof -
  have "0 \<le> probability \<and> probability \<le> 1 \<Longrightarrow>
        0 \<le> fold (\<lambda>entry probability.
             f64_mul probability
               (individual_probability_f64 one_gene two_genes have_trait (fst entry) (snd entry)))
             entries probability \<and>
        fold (\<lambda>entry probability.
             f64_mul probability
               (individual_probability_f64 one_gene two_genes have_trait (fst entry) (snd entry)))
             entries probability \<le> 1" for entries probability
  proof (induction entries arbitrary: probability)
    case Nil
    then show ?case by simp
  next
    case (Cons e entries)
    show ?case
      using Cons.IH [OF f64_mul_unit [OF Cons.prems individual_probability_f64_bounds]]
      by simp
  qed
  then show ?thesis
    unfolding joint_probability_f64_def by simp
qed

text \<open>
  C2: the value returned by \<^verbatim>\<open>joint_probability\<close> lies in the interval from 0 to 1,
  in exact arithmetic and in binary floating point. This holds for every registry and
  all three sets, so in particular when the one-gene and two-gene sets are disjoint sets
  of names of the registry and the trait set is a set of names of the registry.
\<close>

theorem joint_probability_in_unit_interval:
  "0 \<le> joint_probability people one_gene two_genes have_trait \<and>
   joint_probability people one_gene two_genes have_trait \<le> 1 \<and>
   0 \<le> joint_probability_f64 people one_gene two_genes have_trait \<and>
   joint_probability_f64 people one_gene two_genes have_trait \<le> 1"
proof -
  have "0 \<le> joint_probability people one_gene two_genes have_trait \<and>
        joint_probability people one_gene two_genes have_trait \<le> 1"
    unfolding joint_probability_def joint_probability_run_def Let_def
    by (rule fold_jp_step_bounds) simp
  then show ?thesis
    using joint_probability_f64_bounds [of people one_gene two_genes have_trait] by simp
qed

subsection \<open>The factor of a person with one copy\<close>

text \<open>
  C4: for a person in the one-gene set (and, the two sets being disjoint, not in the
  two-gene set) whose father \<open>f\<close> and mother \<open>m\<close> are both recorded, the pair computed
  by lines 198 to 231 is (father passes and mother does not, mother passes and father
  does not), so the gene-count factor multiplied in at line 234 is the sum of these two
  products of transmission probabilities; the person's whole factor is that sum times
  the trait probability for one copy.
\<close>

theorem one_copy_gene_factor:
  assumes "person \<in> one_gene" and "person \<notin> two_genes"
    and "p_father r = Some f" and "p_mother r = Some m"
  shows "gene_from_one_parent one_gene two_genes (p_father r) (p_mother r) =
           (transmission_probability one_gene two_genes f *
              (1 - transmission_probability one_gene two_genes m),
            transmission_probability one_gene two_genes m *
              (1 - transmission_probability one_gene two_genes f)) \<and>
         individual_probability one_gene two_genes have_trait person r =
           (transmission_probability one_gene two_genes f *
              (1 - transmission_probability one_gene two_genes m) +
            transmission_probability one_gene two_genes m *
              (1 - transmission_probability one_gene two_genes f)) *
           PROBS_trait 1 (person \<in> have_trait)"
proof -
  have g: "gene_from_one_parent one_gene two_genes (Some f) (Some m) =
           (transmission_probability one_gene two_genes f *
              (1 - transmission_probability one_gene two_genes m),
            transmission_probability one_gene two_genes m *
              (1 - transmission_probability one_gene two_genes f))"
    by (simp add: gene_from_one_parent_def transmission_probability_def PROBS_mutation_def)
  show ?thesis
    using assms by (simp add: individual_probability_def g Let_def)
qed

theorem one_copy_gene_factor_witness:
  "gene_from_one_parent {''Harry''} {''James''} (Some ''James'') (Some ''Lily'') =
     (0.9801, 0.0001) \<and>
   individual_probability {''Harry''} {''James''} {''James''} ''Harry''
     \<lparr>p_name = ''Harry'', p_mother = Some ''Lily'', p_father = Some ''James'',
      p_trait = None\<rparr> =
   0.431288"
  using one_copy_gene_factor [of "''Harry''" "{''Harry''}" "{''James''}"
      "\<lparr>p_name = ''Harry'', p_mother = Some ''Lily'', p_father = Some ''James'',
        p_trait = None\<rparr>"
      "''James''" "''Lily''" "{''James''}"]
  by (simp add: transmission_probability_def PROBS_trait_def)

subsection \<open>The arguments are left as they were\<close>



section \<open>Properties of \<^verbatim>\<open>powerset\<close>\<close>

lemma combinations_subset:
  "ys \<in> set (combinations xs r) \<Longrightarrow> set ys \<subseteq> set xs"
proof (induction xs r arbitrary: ys rule: combinations.induct)
  case (3 x xs r)
  from 3(3) consider zs where "ys = x # zs" "zs \<in> set (combinations xs r)"
    | "ys \<in> set (combinations xs (Suc r))"
    by auto
  then show ?case
  proof cases
    case 1
    then show ?thesis using 3(1) [of zs] by auto
  next
    case 2
    then show ?thesis using 3(2) [of ys] by auto
  qed
qed simp_all

lemma combinations_distinct_sets:
  "distinct xs \<Longrightarrow> distinct (map set (combinations xs r))"
proof (induction xs r rule: combinations.induct)
  case (1 xs)
  then show ?case by simp
next
  case (2 r)
  then show ?case by simp
next
  case (3 x xs r)
  then have x: "x \<notin> set xs" and d: "distinct xs" by simp_all
  have sub: "\<And>ys k. ys \<in> set (combinations xs k) \<Longrightarrow> x \<notin> set ys"
    using combinations_subset x by blast
  have inj: "inj_on (\<lambda>ys. insert x (set ys)) (set (combinations xs r))"
  proof (rule inj_onI)
    fix ys zs
    assume a: "ys \<in> set (combinations xs r)" "zs \<in> set (combinations xs r)"
      "insert x (set ys) = insert x (set zs)"
    then have "set ys = set zs" using sub [OF a(1)] sub [OF a(2)] by auto
    moreover have "inj_on set (set (combinations xs r))"
      using 3(1) [OF d] by (simp add: distinct_map)
    ultimately show "ys = zs" using a(1,2) by (auto dest: inj_onD)
  qed
  have d1: "distinct (map (\<lambda>ys. insert x (set ys)) (combinations xs r))"
    using 3(1) [OF d] inj by (simp add: distinct_map)
  have d2: "distinct (map set (combinations xs (Suc r)))"
    using 3(2) [OF d] .
  have disj: "(\<lambda>ys. insert x (set ys)) ` set (combinations xs r) \<inter>
              set ` set (combinations xs (Suc r)) = {}"
    using sub by auto
  show ?case
    using d1 d2 disj by (simp add: comp_def)
qed

lemma combinations_sets:
  "distinct xs \<Longrightarrow> set ` set (combinations xs r) = {B. B \<subseteq> set xs \<and> card B = r}"
proof (induction xs r rule: combinations.induct)
  case (1 xs)
  have "\<And>B. B \<subseteq> set xs \<Longrightarrow> card B = 0 \<Longrightarrow> B = {}"
    using finite_subset [OF _ finite_set] by fastforce
  then show ?case by auto
next
  case (2 r)
  then show ?case by auto
next
  case (3 x xs r)
  then have x: "x \<notin> set xs" and d: "distinct xs" by simp_all
  have fin: "\<And>B. B \<subseteq> set xs \<Longrightarrow> finite B"
    using finite_subset [OF _ finite_set] by blast
  have ih1: "set ` set (combinations xs r) = {B. B \<subseteq> set xs \<and> card B = r}"
    using 3 d by simp
  have ih2: "set ` set (combinations xs (Suc r)) = {B. B \<subseteq> set xs \<and> card B = Suc r}"
    using 3 d by simp
  have "set ` set (combinations (x # xs) (Suc r)) =
        insert x ` (set ` set (combinations xs r)) \<union> set ` set (combinations xs (Suc r))"
    by (simp add: image_Un image_image)
  also have "\<dots> = insert x ` {B. B \<subseteq> set xs \<and> card B = r} \<union>
                  {B. B \<subseteq> set xs \<and> card B = Suc r}"
    by (simp only: ih1 ih2)
  also have "\<dots> = {B. B \<subseteq> set (x # xs) \<and> card B = Suc r}"
  proof (rule set_eqI, rule iffI)
    fix B
    assume "B \<in> insert x ` {B. B \<subseteq> set xs \<and> card B = r} \<union>
                {B. B \<subseteq> set xs \<and> card B = Suc r}"
    then show "B \<in> {B. B \<subseteq> set (x # xs) \<and> card B = Suc r}"
      using x fin by (auto simp add: card_insert_if)
  next
    fix B
    assume "B \<in> {B. B \<subseteq> set (x # xs) \<and> card B = Suc r}"
    then have B: "B \<subseteq> insert x (set xs)" "card B = Suc r" by simp_all
    show "B \<in> insert x ` {B. B \<subseteq> set xs \<and> card B = r} \<union>
               {B. B \<subseteq> set xs \<and> card B = Suc r}"
    proof (cases "x \<in> B")
      case True
      have "finite B" using B(2) by (metis card.infinite nat.distinct(1))
      then have "card (B - {x}) = r" using True B(2) by simp
      moreover have "B - {x} \<subseteq> set xs" using B(1) by auto
      moreover have "B = insert x (B - {x})" using True by auto
      ultimately have "B \<in> insert x ` {B. B \<subseteq> set xs \<and> card B = r}"
        by (intro image_eqI [of _ _ "B - {x}"]) simp_all
      then show ?thesis by simp
    next
      case False
      then have "B \<subseteq> set xs" using B(1) by auto
      then show ?thesis using B(2) by simp
    qed
  qed
  finally show ?case .
qed

text \<open>The subsets of size below \<open>m\<close>, each once: the invariant of the loop over \<open>r\<close>.\<close>

lemma sizes_below:
  "distinct xs \<Longrightarrow>
   distinct (map set (concat (map (\<lambda>r. combinations xs r) [0..<m]))) \<and>
   set (map set (concat (map (\<lambda>r. combinations xs r) [0..<m]))) =
     {B. B \<subseteq> set xs \<and> card B < m}"
proof (induction m)
  case 0
  then show ?case by simp
next
  case (Suc m)
  note ih = Suc.IH [OF Suc.prems]
  note cs = combinations_sets [OF Suc.prems, of m]
  have disj: "set (map set (concat (map (\<lambda>r. combinations xs r) [0..<m]))) \<inter>
              set (map set (combinations xs m)) = {}"
    using ih cs by auto
  have "distinct (map set (concat (map (\<lambda>r. combinations xs r) [0..<Suc m])))"
    using ih combinations_distinct_sets [OF Suc.prems, of m] disj by simp
  moreover have "set (map set (concat (map (\<lambda>r. combinations xs r) [0..<Suc m]))) =
                 {B. B \<subseteq> set xs \<and> card B < Suc m}"
  proof -
    have "set (map set (concat (map (\<lambda>r. combinations xs r) [0..<Suc m]))) =
          set (map set (concat (map (\<lambda>r. combinations xs r) [0..<m]))) \<union>
          set ` set (combinations xs m)"
      by (simp add: image_Un)
    also have "\<dots> = {B. B \<subseteq> set xs \<and> card B < m} \<union> {B. B \<subseteq> set xs \<and> card B = m}"
      using ih cs by simp
    also have "\<dots> = {B. B \<subseteq> set xs \<and> card B < Suc m}"
      by auto
    finally show ?thesis .
  qed
  ultimately show ?case by blast
qed

lemma powerset_set_distinct:
  assumes "set (to_list S) = S" and "distinct (to_list S)"
  shows "distinct (powerset to_list S) \<and> set (powerset to_list S) = Pow S"
proof -
  let ?xs = "to_list S"
  have "card B < length ?xs + 1" if "B \<subseteq> set ?xs" for B
  proof -
    have "card B \<le> card (set ?xs)" using that by (simp add: card_mono)
    also have "\<dots> \<le> length ?xs" by (rule card_length)
    finally show ?thesis by simp
  qed
  then have "{B. B \<subseteq> set ?xs \<and> card B < length ?xs + 1} = Pow (set ?xs)"
    by auto
  then show ?thesis
    using sizes_below [OF assms(2), of "length ?xs + 1"] assms(1)
    by (simp add: powerset_def Let_def)
qed

text \<open>
  C3: when \<^verbatim>\<open>list(s)\<close> enumerates the set \<open>S\<close> (each element once), the list returned by
  \<^verbatim>\<open>powerset\<close> has \<open>2 ^ card S\<close> entries, no entry twice, and its entries are exactly
  the subsets of \<open>S\<close>, the empty set and \<open>S\<close> among them; for the empty set it is the
  one-entry list of the empty set.
\<close>

theorem powerset_all_subsets:
  assumes "set (to_list S) = S" and "distinct (to_list S)"
  shows "length (powerset to_list S) = 2 ^ card S \<and>
         distinct (powerset to_list S) \<and>
         set (powerset to_list S) = Pow S \<and>
         {} \<in> set (powerset to_list S) \<and>
         S \<in> set (powerset to_list S) \<and>
         (card S = 0 \<longrightarrow> powerset to_list S = [{}])"
proof -
  note sd = powerset_set_distinct [of to_list S, OF assms]
  have fin: "finite S" using assms(1) finite_set by metis
  have "card (set (powerset to_list S)) = length (powerset to_list S)"
    using sd by (intro distinct_card) simp
  then have len: "length (powerset to_list S) = 2 ^ card S"
    using sd fin by (simp add: card_Pow)
  have empty: "card S = 0 \<longrightarrow> powerset to_list S = [{}]"
  proof
    assume "card S = 0"
    then have "S = {}" using fin by simp
    then have "to_list S = []" using assms(1) by simp
    then show "powerset to_list S = [{}]" by (simp add: powerset_def)
  qed
  show ?thesis using len sd empty by simp
qed

theorem powerset_all_subsets_witness:
  "set (order_of [''Harry'', ''James'', ''Lily''] {''Harry'', ''James'', ''Lily''}) =
     {''Harry'', ''James'', ''Lily''} \<and>
   distinct (order_of [''Harry'', ''James'', ''Lily''] {''Harry'', ''James'', ''Lily''}) \<and>
   length (powerset (order_of [''Harry'', ''James'', ''Lily''])
             {''Harry'', ''James'', ''Lily''}) = 8 \<and>
   set (powerset (order_of [''Harry'', ''James'', ''Lily'']) {''Harry'', ''James'', ''Lily''}) =
     Pow {''Harry'', ''James'', ''Lily''} \<and>
   powerset (order_of [''Harry'', ''James'', ''Lily'']) {} = [{}]"
proof -
  have h: "set (order_of [''Harry'', ''James'', ''Lily''] {''Harry'', ''James'', ''Lily''}) =
             {''Harry'', ''James'', ''Lily''}"
    "distinct (order_of [''Harry'', ''James'', ''Lily''] {''Harry'', ''James'', ''Lily''})"
    by (auto simp add: order_of_def)
  have e: "set (order_of [''Harry'', ''James'', ''Lily''] {}) = {}"
    "distinct (order_of [''Harry'', ''James'', ''Lily''] {})"
    by (simp_all add: order_of_def)
  have c: "card {''Harry'', ''James'', ''Lily''} = 3"
    by simp
  show ?thesis
    using h c
      powerset_all_subsets [of "order_of [''Harry'', ''James'', ''Lily'']"
        "{''Harry'', ''James'', ''Lily''}", OF h]
      powerset_all_subsets [of "order_of [''Harry'', ''James'', ''Lily'']" "{}", OF e]
    by simp
qed

section \<open>Properties of \<^verbatim>\<open>update\<close>\<close>











subsection \<open>A person in both gene sets\<close>

text \<open>
  C10: for a person in both \<^verbatim>\<open>one_gene\<close> and \<^verbatim>\<open>two_genes\<close>, \<^verbatim>\<open>joint_probability\<close> takes
  the branch of two copies (its factor is the two-copy gene factor times the trait
  probability for two copies), while \<^verbatim>\<open>update\<close> adds \<open>p\<close> to the bucket of one copy.
\<close>

theorem overlap_classified_differently:
  assumes "person \<in> one_gene" and "person \<in> two_genes"
  shows "individual_probability one_gene two_genes have_trait person r =
           (if p_father r \<noteq> None \<and> p_mother r \<noteq> None
            then gene_from_each_parent one_gene two_genes [p_father r, p_mother r] 1
            else PROBS_gene 2) * PROBS_trait 2 (person \<in> have_trait) \<and>
         gene (update_person one_gene two_genes have_trait p person post) =
           (gene post)(1 := gene post 1 + p)"
  using assms by (simp add: individual_probability_def update_person_def Let_def)

theorem overlap_classified_differently_witness:
  "individual_probability {''James''} {''James''} {} ''James''
     \<lparr>p_name = ''James'', p_mother = None, p_father = None, p_trait = None\<rparr> =
     0.01 * 0.35 \<and>
   gene (update_person {''James''} {''James''} {} 1 ''James''
           \<lparr>gene = (\<lambda>n. 0), trait = (\<lambda>b. 0)\<rparr>) 1 = 1 \<and>
   gene (update_person {''James''} {''James''} {} 1 ''James''
           \<lparr>gene = (\<lambda>n. 0), trait = (\<lambda>b. 0)\<rparr>) 2 = 0"
  using overlap_classified_differently [of "''James''" "{''James''}" "{''James''}" "{}"
      "\<lparr>p_name = ''James'', p_mother = None, p_father = None, p_trait = None\<rparr>" 1
      "\<lparr>gene = (\<lambda>n. 0), trait = (\<lambda>b. 0)\<rparr>"]
  by (simp add: PROBS_gene_def PROBS_trait_def)

section \<open>Properties of \<^verbatim>\<open>normalize\<close>\<close>

lemma gene_norm_sum:
  "fold (\<lambda>number_of_genes gene_norm. gene_norm + g number_of_genes) [0..<3] (0::real) =
   g 0 + g 1 + g 2"
  by (simp add: eval_nat_numeral)

lemma normalize_gene_zero: "normalize_gene [0..<3] 0 g = Inl ZeroDivisionError"
  by (simp add: eval_nat_numeral py_div_def)

lemma normalize_gene_nonzero:
  "gene_norm \<noteq> 0 \<Longrightarrow>
   normalize_gene [0..<3] gene_norm g =
     Inr (g(0 := g 0 / gene_norm, 1 := g 1 / gene_norm, 2 := g 2 / gene_norm))"
  by (simp add: eval_nat_numeral py_div_def)

lemma normalize_person_zero:
  "gene post 0 + gene post 1 + gene post 2 = 0 \<or> trait post True + trait post False = 0 \<Longrightarrow>
   normalize_person post = Inl ZeroDivisionError"
  unfolding normalize_person_def gene_norm_sum Let_def
  by (cases "gene post 0 + gene post 1 + gene post 2 = 0")
     (auto simp add: normalize_gene_zero normalize_gene_nonzero py_div_def)





text \<open>
  C7: when some person's three gene tallies sum to zero, or some person's two trait
  tallies sum to zero, \<^verbatim>\<open>normalize\<close> raises \<^verbatim>\<open>ZeroDivisionError\<close>: no branch of it
  tests the sum, and it returns no mapping.
\<close>

theorem normalize_zero_sum_raises:
  assumes "(person, post) \<in> set probabilities"
    and "gene post 0 + gene post 1 + gene post 2 = 0 \<or> trait post True + trait post False = 0"
  shows "normalize probabilities = Inl ZeroDivisionError"
  using assms
proof (induction probabilities)
  case Nil
  then show ?case by simp
next
  case (Cons e probabilities)
  obtain person' post' where e: "e = (person', post')" by (cases e)
  show ?case
  proof (cases "e = (person, post)")
    case True
    then show ?thesis
      using normalize_person_zero [OF Cons.prems(2)] by simp
  next
    case False
    then have "normalize probabilities = Inl ZeroDivisionError"
      using Cons by simp
    then show ?thesis
      by (simp add: e split: sum.splits) (metis error.exhaust)
  qed
qed

theorem normalize_zero_sum_raises_witness:
  "normalize (initial_probabilities test_people) = Inl ZeroDivisionError \<and>
   normalize [(''James'', \<lparr>gene = (\<lambda>n. 1), trait = (\<lambda>b. if b then 1 else - 1)\<rparr>)] =
     Inl ZeroDivisionError"
  using normalize_zero_sum_raises
      [of "''Harry''" "\<lparr>gene = (\<lambda>n. 0), trait = (\<lambda>b. 0)\<rparr>" "initial_probabilities test_people"]
    normalize_zero_sum_raises
      [of "''James''" "\<lparr>gene = (\<lambda>n. 1), trait = (\<lambda>b. if b then 1 else - 1)\<rparr>"
          "[(''James'', \<lparr>gene = (\<lambda>n. 1), trait = (\<lambda>b. if b then 1 else - 1)\<rparr>)]"]
  by (simp add: initial_probabilities_def test_people_def)

section \<open>Properties of the enumeration\<close>

lemma fails_evidenceI:
  "(person, r) \<in> set people \<Longrightarrow> p_trait r = Some b \<Longrightarrow> b \<noteq> (person \<in> have_trait) \<Longrightarrow>
   fails_evidence people have_trait"
  unfolding fails_evidence_def by (rule bexI [of _ "(person, r)"]) auto

lemma fold_concat_map:
  "fold f (concat (map g xs)) s = fold (\<lambda>x. fold f (g x)) xs s"
  by (induction xs arbitrary: s) simp_all

lemma gene_rounds_calls:
  "gene_rounds to_list people names have_trait probabilities =
   fold (\<lambda>(one_gene, two_genes, have_trait) probabilities.
           update probabilities one_gene two_genes have_trait
             (joint_probability people one_gene two_genes have_trait))
     (concat (map (\<lambda>one_gene. map (\<lambda>two_genes. (one_gene, two_genes, have_trait))
                                 (powerset to_list (names - one_gene)))
                (powerset to_list names)))
     probabilities"
  by (simp add: gene_rounds_def fold_concat_map fold_map comp_def)

lemma main_accumulate_calls:
  "main_accumulate to_list people =
   fold (\<lambda>(one_gene, two_genes, have_trait) probabilities.
           update probabilities one_gene two_genes have_trait
             (joint_probability people one_gene two_genes have_trait))
     (update_calls to_list people) (initial_probabilities people)"
proof -
  have "trait_round to_list people names =
        (\<lambda>have_trait. fold (\<lambda>(one_gene, two_genes, have_trait) probabilities.
           update probabilities one_gene two_genes have_trait
             (joint_probability people one_gene two_genes have_trait))
          (if fails_evidence people have_trait then []
           else concat (map (\<lambda>one_gene. map (\<lambda>two_genes. (one_gene, two_genes, have_trait))
                                 (powerset to_list (names - one_gene)))
                (powerset to_list names))))" for names
    by (rule ext, rule ext) (simp add: trait_round_def gene_rounds_calls)
  then show ?thesis
    by (simp add: main_accumulate_def update_calls_def fold_concat_map Let_def)
qed

lemma update_calls_pass_evidence:
  "(one_gene, two_genes, have_trait) \<in> set (update_calls to_list people) \<Longrightarrow>
   \<not> fails_evidence people have_trait"
  by (auto simp add: update_calls_def Let_def split: if_splits)

text \<open>
  C5: when some person of the registry has a recorded trait value that differs from
  the person's membership in the trait subset \<^verbatim>\<open>have_trait\<close>, the round of the loop for
  that subset leaves the tallies as they are, and \<^verbatim>\<open>update\<close> is never called with that
  subset; the tallies of \<^verbatim>\<open>main\<close> are the result of exactly the calls listed by
  \<open>update_calls\<close>.
\<close>

theorem contradicting_trait_sets_skipped:
  assumes "(person, r) \<in> set people" and "p_trait r = Some b"
    and "b \<noteq> (person \<in> have_trait)"
  shows "trait_round to_list people names have_trait probabilities = probabilities \<and>
         (\<forall>(one_gene, two_genes, have_trait') \<in> set (update_calls to_list people).
            have_trait' \<noteq> have_trait) \<and>
         main_accumulate to_list people =
           fold (\<lambda>(one_gene, two_genes, have_trait) probabilities.
                   update probabilities one_gene two_genes have_trait
                     (joint_probability people one_gene two_genes have_trait))
             (update_calls to_list people) (initial_probabilities people)"
proof -
  have f: "fails_evidence people have_trait"
    using assms by (rule fails_evidenceI)
  have "trait_round to_list people names have_trait probabilities = probabilities"
    using f by (simp add: trait_round_def)
  moreover have "\<forall>(one_gene, two_genes, have_trait') \<in> set (update_calls to_list people).
            have_trait' \<noteq> have_trait"
    using f update_calls_pass_evidence by blast
  ultimately show ?thesis
    using main_accumulate_calls by blast
qed

theorem contradicting_trait_sets_skipped_witness:
  "(''James'', \<lparr>p_name = ''James'', p_mother = None, p_father = None, p_trait = Some True\<rparr>)
     \<in> set test_people \<and>
   trait_round (order_of [''Harry'', ''James'', ''Lily'']) test_people
     {''Harry'', ''James'', ''Lily''} {''Harry''} (initial_probabilities test_people) =
     initial_probabilities test_people \<and>
   (\<forall>one_gene two_genes.
      (one_gene, two_genes, {''Harry''}) \<notin>
        set (update_calls (order_of [''Harry'', ''James'', ''Lily'']) test_people))"
  using contradicting_trait_sets_skipped
    [of "''James''"
      "\<lparr>p_name = ''James'', p_mother = None, p_father = None, p_trait = Some True\<rparr>"
      test_people True "{''Harry''}" "order_of [''Harry'', ''James'', ''Lily'']"
      "{''Harry'', ''James'', ''Lily''}" "initial_probabilities test_people"]
  by (auto simp add: test_people_def)

end
